theory Spec2Isabelle
  imports Complex_Main "HOL-Library.Sublist"
begin

section \<open>JavaScript values and strings\<close>

text \<open>
  The backend is JavaScript. A string is modelled as a \<^typ>\<open>string\<close>, one \<^typ>\<open>char\<close> per
  code unit (so \<open>length\<close> is the JavaScript \<open>.length\<close>); the code units that a
  \<^typ>\<open>char\<close> can denote are those below 256. The values that JSON bodies and property
  reads produce are the datatype \<open>jsval\<close>; an object is the list of its own properties,
  read with \<open>map_of\<close>. A raised exception is the left injection of a sum.
\<close>

datatype jsval =
    JUndefined
  | JNull
  | JBool bool
  | JNum rat
  | JStr string
  | JArr "jsval list"
  | JObj "(string \<times> jsval) list"

datatype js_error = TypeError

text \<open>Truthiness, as tested by \<open>if (v)\<close>, \<open>!v\<close>, \<open>a && b\<close> and \<open>a || b\<close>.\<close>

fun truthy :: "jsval \<Rightarrow> bool" where
  "truthy JUndefined = False"
| "truthy JNull = False"
| "truthy (JBool b) = b"
| "truthy (JNum n) = (n \<noteq> 0)"
| "truthy (JStr s) = (s \<noteq> [])"
| "truthy (JArr xs) = True"
| "truthy (JObj kvs) = True"

text \<open>
  Reading a property \<open>v.k\<close>, for the property names this program reads (\<open>choices\<close>,
  \<open>message\<close>, \<open>content\<close>, \<open>text\<close>, \<open>topic\<close>): none of them exists on the prototypes of
  strings, numbers, booleans, arrays or plain objects, so only an own property of an object
  gives a value; reading from \<open>null\<close> or \<open>undefined\<close> raises a TypeError.
\<close>

fun getProp :: "jsval \<Rightarrow> string \<Rightarrow> js_error + jsval" where
  "getProp JUndefined k = Inl TypeError"
| "getProp JNull k = Inl TypeError"
| "getProp (JObj kvs) k = (case map_of kvs k of None \<Rightarrow> Inr JUndefined | Some v \<Rightarrow> Inr v)"
| "getProp v k = Inr JUndefined"

text \<open>\<open>typeof v === 'string'\<close>\<close>

definition isJStr :: "jsval \<Rightarrow> bool" where
  "isJStr v = (case v of JStr s \<Rightarrow> True | _ \<Rightarrow> False)"

text \<open>Sequencing of computations that may raise.\<close>

definition thenE :: "js_error + 'a \<Rightarrow> ('a \<Rightarrow> js_error + 'b) \<Rightarrow> js_error + 'b" where
  "thenE r f = (case r of Inl e \<Rightarrow> Inl e | Inr v \<Rightarrow> f v)"

text \<open>
  White space as \<open>String.prototype.trim\<close> and the regular expression class \<open>\s\<close> see it
  (tab, line feed, vertical tab, form feed, carriage return, space, no-break space).
\<close>

definition newline :: char where
  "newline = CHR 0x0A"

definition is_ws :: "char \<Rightarrow> bool" where
  "is_ws c = (c \<in> set [CHR 0x09, CHR 0x0A, CHR 0x0B, CHR 0x0C, CHR 0x0D, CHR 0x20, CHR 0xA0])"

definition trim :: "string \<Rightarrow> string" where
  "trim s = rev (dropWhile is_ws (rev (dropWhile is_ws s)))"

text \<open>\<open>s.split('\n')\<close>: the segments between line feeds; the empty string gives \<open>['']\<close>.\<close>

fun split_nl :: "string \<Rightarrow> string list" where
  "split_nl [] = [[]]"
| "split_nl (c # cs) =
     (if c = newline then [] # split_nl cs
      else (case split_nl cs of [] \<Rightarrow> [[c]] | l # ls \<Rightarrow> (c # l) # ls))"

text \<open>\<open>xs.join(sep)\<close>.\<close>

fun joinWith :: "string \<Rightarrow> string list \<Rightarrow> string" where
  "joinWith sep [] = []"
| "joinWith sep [x] = x"
| "joinWith sep (x # y # ys) = x @ sep @ joinWith sep (y # ys)"

text \<open>
  \<open>s.replace(/^#+\s*/, '')\<close>: when the string starts with \<open>#\<close>, the whole run of \<open>#\<close> and
  the white space after it are removed (both quantifiers are greedy and the rest of the
  pattern is empty, so the match is the longest one); otherwise the string is unchanged.
\<close>

definition stripHeading :: "string \<Rightarrow> string" where
  "stripHeading s =
     (case s of
        [] \<Rightarrow> []
      | c # cs \<Rightarrow> if c = CHR ''#'' then dropWhile is_ws (dropWhile (\<lambda>d. d = CHR ''#'') s) else s)"

section \<open>Generation client (services/aiClient.js)\<close>

record generation_result =
  title :: string
  content :: string

definition fallbackModel :: string where
  "fallbackModel = ''meta-llama/llama-3.2-3b-instruct:free''"

definition alternativeFreeModels :: "string list" where
  "alternativeFreeModels =
     [''meta-llama/llama-3.2-3b-instruct:free'',
      ''meta-llama/llama-3.1-8b-instruct:free'',
      ''google/gemini-flash-1.5:free'',
      ''mistralai/mistral-7b-instruct:free'',
      ''qwen/qwen-2-7b-instruct:free'']"

subsection \<open>normalizeGeneratedText\<close>

text \<open>The last three tests of \<open>normalizeGeneratedText\<close> (bare string, \<open>content\<close>, \<open>text\<close>).\<close>

definition normalizeGeneric :: "jsval \<Rightarrow> js_error + jsval" where
  "normalizeGeneric response =
     (case response of
        JStr s \<Rightarrow> Inr response
      | _ \<Rightarrow>
        thenE (getProp response ''content'') (\<lambda>c.
          if truthy c then Inr c
          else thenE (getProp response ''text'') (\<lambda>t.
            if truthy t then Inr t else Inr JNull)))"

text \<open>
  The test on \<open>response.choices\<close> and the reads from \<open>choices[0]\<close>. The result \<open>None\<close> means
  that no \<open>return\<close> was reached in this block. \<open>a && b\<close> is \<open>a\<close> when \<open>a\<close> is falsy.
\<close>

definition normalizeChoices :: "jsval \<Rightarrow> js_error + jsval option" where
  "normalizeChoices response =
     thenE (getProp response ''choices'') (\<lambda>choices.
       case choices of
         JArr (choice # rest) \<Rightarrow>
           thenE (getProp choice ''message'') (\<lambda>message.
             thenE (if truthy message then getProp message ''content'' else Inr message) (\<lambda>mc.
               if truthy mc then Inr (Some mc)
               else thenE (getProp choice ''text'') (\<lambda>t.
                 if truthy t then Inr (Some t) else Inr None)))
       | _ \<Rightarrow> Inr None)"

definition normalizeGeneratedText :: "jsval \<Rightarrow> js_error + jsval" where
  "normalizeGeneratedText response =
     (if \<not> truthy response then Inr JNull
      else thenE (normalizeChoices response) (\<lambda>r.
        case r of Some v \<Rightarrow> Inr v | None \<Rightarrow> normalizeGeneric response))"

text \<open>
  The words of the specification for the same function. The sources of text are, in
  priority order: the chat-completion message content \<open>choices[0].message.content\<close>, the
  legacy completion text \<open>choices[0].text\<close>, a bare string body, the field \<open>content\<close>, the
  field \<open>text\<close>. A source that does not exist is \<open>undefined\<close>; the first source that is
  truthy is the text, and there is no text when none is. \<open>field\<close> reads a field without
  raising.
\<close>

definition field :: "jsval \<Rightarrow> string \<Rightarrow> jsval" where
  "field v k =
     (case v of
        JObj kvs \<Rightarrow> (case map_of kvs k of Some x \<Rightarrow> x | None \<Rightarrow> JUndefined)
      | _ \<Rightarrow> JUndefined)"

definition firstChoice :: "jsval \<Rightarrow> jsval option" where
  "firstChoice response =
     (case field response ''choices'' of JArr (c # cs) \<Rightarrow> Some c | _ \<Rightarrow> None)"

definition specSources :: "jsval \<Rightarrow> jsval list" where
  "specSources response =
     (case firstChoice response of
        Some c \<Rightarrow> [field (field c ''message'') ''content'', field c ''text'']
      | None \<Rightarrow> [])
     @ [if isJStr response then response else JUndefined,
        field response ''content'',
        field response ''text'']"

definition specNormalize :: "jsval \<Rightarrow> jsval" where
  "specNormalize response =
     (case find truthy (specSources response) of Some v \<Rightarrow> v | None \<Rightarrow> JNull)"

subsection \<open>generateFallback\<close>

definition fallbackParagraphs :: "string \<Rightarrow> string list" where
  "fallbackParagraphs topic =
     [''In today's fast-paced landscape, '' @ topic
        @ '' continues to shape how teams deliver value.'',
      ''Practitioners emphasize iterative learning, pragmatic tooling, and measurable outcomes as the best path to sustainable progress.'',
      ''Looking ahead, expect lightweight automation, sensible defaults, and a human-first perspective to remain central to successful ''
        @ topic @ '' initiatives.'']"

definition generateFallback :: "string \<Rightarrow> generation_result" where
  "generateFallback topic =
     \<lparr>title = ''Fallback article on '' @ topic,
      content = joinWith [newline, newline] (fallbackParagraphs topic)\<rparr>"

subsection \<open>The candidate models\<close>

text \<open>
  What the process and the external service supply: the two environment variables read by
  the client, the outcome of the model-listing request made by \<open>verifyToken\<close>, and the
  outcome of the chat-completion request for a model and a user prompt. A request either
  resolves with the response body or is rejected; a rejection carries the HTTP status when
  a response arrived (\<open>err.response.status\<close>) and none for a time-out or a network error.
  The candidates of one run are distinct, so each model is asked at most once and a function
  of the model describes any sequence of answers.
\<close>

datatype reply = Rejected "nat option" | Resolved jsval

record env =
  OPENROUTER_API_KEY :: "string option"
  AI_MODEL :: "string option"
  modelsReply :: reply
  chatReply :: "string \<Rightarrow> string \<Rightarrow> reply"

text \<open>\<open>(process.env.AI_MODEL || '').trim() || fallbackModel\<close>\<close>

definition configuredModel :: "env \<Rightarrow> string" where
  "configuredModel e =
     (let m = trim (case AI_MODEL e of None \<Rightarrow> [] | Some s \<Rightarrow> s)
      in if m \<noteq> [] then m else fallbackModel)"

definition modelsToTry :: "string \<Rightarrow> string list" where
  "modelsToTry m =
     [m] @ (if m \<notin> set alternativeFreeModels then alternativeFreeModels
            else filter (\<lambda>a. a \<noteq> m) alternativeFreeModels)"

text \<open>
  \<open>[...new Set(xs)]\<close>: a Set keeps its elements in insertion order and adding an element
  that is already there changes nothing.
\<close>

definition setAdd :: "'a \<Rightarrow> 'a list \<Rightarrow> 'a list" where
  "setAdd x s = (if x \<in> set s then s else s @ [x])"

definition newSet :: "'a list \<Rightarrow> 'a list" where
  "newSet xs = fold setAdd xs []"

definition uniqueModels :: "string \<Rightarrow> string list" where
  "uniqueModels m = newSet (modelsToTry m)"

text \<open>
  The words of the specification for the same list: duplicates removed, first-seen order
  kept.
\<close>

function firstSeen :: "'a list \<Rightarrow> 'a list" where
  "firstSeen [] = []"
| "firstSeen (x # xs) = x # firstSeen (removeAll x xs)"
  by pat_completeness auto
termination
  by (relation "measure length") (auto simp: less_Suc_eq_le length_removeAll_less_eq)

definition specCandidates :: "string \<Rightarrow> string list \<Rightarrow> string list" where
  "specCandidates m alts = firstSeen (m # filter (\<lambda>a. a \<noteq> m) alts)"

subsection \<open>verifyToken and generateViaOpenRouter\<close>

text \<open>
  \<open>verifyToken\<close> is false only when the listing request is rejected with status 401; every
  other failure, also one raised while the listing is logged, is caught and gives true.
\<close>

definition verifyToken :: "env \<Rightarrow> bool" where
  "verifyToken e =
     (case modelsReply e of
        Resolved d \<Rightarrow> True
      | Rejected st \<Rightarrow> if st = Some 401 then False else True)"

text \<open>
  The loop over the candidates. The function returns what \<open>generateViaOpenRouter\<close> returns
  after the loop (\<open>JNull\<close> for \<open>null\<close>) together with the models a request was posted for, in
  order. In the \<open>catch\<close> block only status 401 leaves the loop; the statuses 429, 400 and 404
  and every other error (a time-out, an exception raised by \<open>normalizeGeneratedText\<close>) log
  and go on. \<open>lastError\<close> is only logged and is left out.
\<close>

fun tryModels :: "(string \<Rightarrow> reply) \<Rightarrow> string list \<Rightarrow> jsval \<times> string list" where
  "tryModels post [] = (JNull, [])"
| "tryModels post (model # rest) =
     (case post model of
        Resolved data \<Rightarrow>
          (case normalizeGeneratedText data of
             Inr text \<Rightarrow>
               if truthy text then (text, [model])
               else (let (r, log) = tryModels post rest in (r, model # log))
           | Inl err \<Rightarrow> (let (r, log) = tryModels post rest in (r, model # log)))
      | Rejected status \<Rightarrow>
          if status = Some 401 then (JNull, [model])
          else (let (r, log) = tryModels post rest in (r, model # log)))"

text \<open>
  The three outcomes of one candidate in the loop: its response yields text (a truthy value
  extracted by \<open>normalizeGeneratedText\<close>), the request is rejected as unauthorized (401), or
  the candidate fails in any other way.
\<close>

definition candidateText :: "(string \<Rightarrow> reply) \<Rightarrow> string \<Rightarrow> jsval option" where
  "candidateText post model =
     (case post model of
        Resolved data \<Rightarrow>
          (case normalizeGeneratedText data of
             Inr text \<Rightarrow> if truthy text then Some text else None
           | Inl err \<Rightarrow> None)
      | Rejected st \<Rightarrow> None)"

definition unauthorized :: "(string \<Rightarrow> reply) \<Rightarrow> string \<Rightarrow> bool" where
  "unauthorized post model = (post model = Rejected (Some 401))"

definition candidateFails :: "(string \<Rightarrow> reply) \<Rightarrow> string \<Rightarrow> bool" where
  "candidateFails post model = (candidateText post model = None \<and> \<not> unauthorized post model)"

datatype call = GetModels | PostChat string

definition generateViaOpenRouter :: "env \<Rightarrow> string \<Rightarrow> jsval \<times> call list" where
  "generateViaOpenRouter e prompt =
     (case OPENROUTER_API_KEY e of
        None \<Rightarrow> (JNull, [])
      | Some token \<Rightarrow>
          if token = [] then (JNull, [])
          else if \<not> verifyToken e then (JNull, [GetModels])
          else (let (r, log) = tryModels (\<lambda>model. chatReply e model prompt)
                                 (uniqueModels (configuredModel e))
                in (r, GetModels # map PostChat log)))"

subsection \<open>generateArticle\<close>

definition articlePrompt :: "string \<Rightarrow> string" where
  "articlePrompt topic =
     ''Write a concise blog post about '' @ [CHR 0x22] @ topic @ [CHR 0x22]
     @ ''. The article must focus on B2B SaaS or open-source Web3 infrastructure topics. Include a clear title followed by 2-4 short paragraphs. Do not write about general engineering productivity, software development practices, or generic tech topics - only B2B SaaS or Web3 infrastructure.''"

text \<open>Lines 379 to 394: the generated text is cut into a title and a content.\<close>

definition parseGenerated :: "string \<Rightarrow> string \<Rightarrow> generation_result" where
  "parseGenerated topic llmResult =
     (let lines = filter (\<lambda>l. l \<noteq> []) (split_nl (trim llmResult));
          titleLine = trim (stripHeading (case lines of [] \<Rightarrow> [] | l # ls \<Rightarrow> l));
          title = (if take 140 titleLine \<noteq> [] then take 140 titleLine
                   else ''New article on '' @ topic);
          contentLines = drop 1 lines;
          content = (if length contentLines > 0 then trim (joinWith [newline] contentLines)
                     else trim llmResult)
      in \<lparr>title = title, content = content\<rparr>)"

text \<open>
  The words of the specification for the lines of the trimmed text: the first line that is
  not empty, and the lines after it that are not empty.
\<close>

definition firstNonEmptyLine :: "string list \<Rightarrow> string option" where
  "firstNonEmptyLine ls = find (\<lambda>l. l \<noteq> []) ls"

definition remainingNonEmptyLines :: "string list \<Rightarrow> string list" where
  "remainingNonEmptyLines ls = filter (\<lambda>l. l \<noteq> []) (drop 1 (dropWhile (\<lambda>l. l = []) ls))"

text \<open>
  The body of the \<open>try\<close> block. \<open>llmResult.trim()\<close> raises a TypeError when the value that
  was extracted is not a string (no other JSON value has a callable \<open>trim\<close>).
\<close>

definition generateArticleTry :: "env \<Rightarrow> string \<Rightarrow> js_error + generation_result" where
  "generateArticleTry e topic =
     (let llmResult = fst (generateViaOpenRouter e (articlePrompt topic))
      in if truthy llmResult
         then (case llmResult of
                 JStr s \<Rightarrow> Inr (parseGenerated topic s)
               | _ \<Rightarrow> Inl TypeError)
         else Inr (generateFallback topic))"

definition generateArticle :: "env \<Rightarrow> string \<Rightarrow> js_error + generation_result" where
  "generateArticle e topic =
     (case generateArticleTry e topic of
        Inr r \<Rightarrow> Inr r
      | Inl err \<Rightarrow> Inr (generateFallback topic))"

text \<open>The external requests made while \<open>generateArticle\<close> runs.\<close>

definition externalCalls :: "env \<Rightarrow> string \<Rightarrow> call list" where
  "externalCalls e topic = snd (generateViaOpenRouter e (articlePrompt topic))"

text \<open>
  The chat-completion request of \<open>generateArticle\<close> for a topic, as a function of the model,
  and the condition under which the loop is reached: a credential is configured and
  \<open>verifyToken\<close> did not reject it.
\<close>

definition chatOf :: "env \<Rightarrow> string \<Rightarrow> string \<Rightarrow> reply" where
  "chatOf e topic = (\<lambda>model. chatReply e model (articlePrompt topic))"

definition credentialAccepted :: "env \<Rightarrow> bool" where
  "credentialAccepted e =
     (case OPENROUTER_API_KEY e of None \<Rightarrow> False | Some token \<Rightarrow> token \<noteq> [] \<and> verifyToken e)"

text \<open>An environment without a credential.\<close>

definition noCredentialEnv :: env where
  "noCredentialEnv =
     \<lparr>OPENROUTER_API_KEY = None, AI_MODEL = None, modelsReply = Rejected None,
      chatReply = (\<lambda>model prompt. Rejected None)\<rparr>"

text \<open>
  Three simulated services, each with a credential and no \<open>AI_MODEL\<close>: one that answers
  429 for the first two default candidates and a chat completion for every other model,
  one that answers 401 to every chat request, and one that answers 429 to every chat
  request.
\<close>

definition helloBody :: jsval where
  "helloBody =
     JObj [(''choices'',
            JArr [JObj [(''message'',
                         JObj [(''role'', JStr ''assistant''),
                               (''content'', JStr (''# Hello'' @ [newline] @ ''World''))])]])]"

definition thirdAnswersEnv :: env where
  "thirdAnswersEnv =
     \<lparr>OPENROUTER_API_KEY = Some ''sk-or-v1-0000'', AI_MODEL = None,
      modelsReply = Resolved (JObj []),
      chatReply = (\<lambda>model prompt.
        if model = ''meta-llama/llama-3.2-3b-instruct:free''
           \<or> model = ''meta-llama/llama-3.1-8b-instruct:free''
        then Rejected (Some 429) else Resolved helloBody)\<rparr>"

definition unauthorizedEnv :: env where
  "unauthorizedEnv =
     \<lparr>OPENROUTER_API_KEY = Some ''sk-or-v1-0000'', AI_MODEL = None,
      modelsReply = Rejected None,
      chatReply = (\<lambda>model prompt. Rejected (Some 401))\<rparr>"

definition rateLimitedEnv :: env where
  "rateLimitedEnv =
     \<lparr>OPENROUTER_API_KEY = Some ''sk-or-v1-0000'', AI_MODEL = None,
      modelsReply = Resolved (JObj []),
      chatReply = (\<lambda>model prompt. Rejected (Some 429))\<rparr>"

section \<open>Store and article service (db.js, services/articleService.js)\<close>

text \<open>
  The table \<open>articles\<close>. The database is the list of its rows in insertion order, the
  largest id given so far (AUTOINCREMENT), the reading of CURRENT_TIMESTAMP, and a fault:
  while the fault is set the storage is unavailable and every statement fails with that
  message.
\<close>

record article =
  art_id :: nat
  art_title :: string
  art_content :: string
  created_at :: string

record db =
  rows :: "article list"
  lastID :: nat
  now :: string
  fault :: "string option"

text \<open>\<open>SELECT COUNT(*) AS count FROM articles\<close>\<close>

definition countAll :: "db \<Rightarrow> string + nat" where
  "countAll d = (case fault d of Some msg \<Rightarrow> Inl msg | None \<Rightarrow> Inr (length (rows d)))"

text \<open>\<open>INSERT INTO articles (title, content) VALUES (?, ?)\<close>\<close>

definition insertArticle :: "string \<Rightarrow> string \<Rightarrow> db \<Rightarrow> (string + nat) \<times> db" where
  "insertArticle t c d =
     (case fault d of
        Some msg \<Rightarrow> (Inl msg, d)
      | None \<Rightarrow>
          (let i = Suc (lastID d)
           in (Inr i,
               d\<lparr>rows := rows d @ [\<lparr>art_id = i, art_title = t, art_content = c,
                                     created_at = now d\<rparr>],
                 lastID := i\<rparr>)))"

definition samples :: "generation_result list" where
  "samples =
     [\<lparr>title = ''Building Product-Led Growth in B2B SaaS'',
       content = ''Product-Led Growth (PLG) has become the dominant go-to-market strategy for modern B2B SaaS companies. Unlike traditional sales-led approaches, PLG focuses on delivering immediate value through the product itself, allowing users to experience core functionality before committing to a purchase. Successful PLG implementations require seamless onboarding flows, in-app guidance, and freemium models that showcase your product's unique value proposition. Key metrics to track include time-to-value, feature adoption rates, and conversion from free to paid tiers. Companies like Slack, Notion, and Figma have demonstrated that when done right, PLG can dramatically reduce customer acquisition costs while increasing organic growth through viral loops and word-of-mouth referrals.''\<rparr>,
      \<lparr>title = ''Decentralized Storage Networks: The Foundation of Web3 Infrastructure'',
       content = ''Decentralized storage networks like IPFS, Arweave, and Filecoin are revolutionizing how data is stored and accessed on the internet. Unlike traditional cloud storage, these networks distribute data across thousands of nodes, eliminating single points of failure and reducing censorship risks. IPFS (InterPlanetary File System) uses content-addressing to create a distributed web where files are identified by their cryptographic hash rather than location. Arweave offers permanent storage through a novel consensus mechanism called Proof of Access, while Filecoin creates a marketplace for storage providers. These technologies are critical infrastructure for Web3 applications, enabling decentralized social networks, NFT marketplaces, and blockchain-based applications that require reliable, censorship-resistant data storage.''\<rparr>,
      \<lparr>title = ''Customer Success Metrics That Drive B2B SaaS Retention'',
       content = ''In B2B SaaS, customer retention is the lifeblood of sustainable growth. While acquisition metrics get attention, retention metrics directly impact revenue and profitability. Key indicators include Net Revenue Retention (NRR), which measures expansion revenue from existing customers, and Customer Lifetime Value (LTV) to Customer Acquisition Cost (CAC) ratios. Product engagement scores, feature adoption rates, and time-to-first-value are leading indicators of churn risk. Successful SaaS companies implement health scoring systems that combine product usage, support ticket volume, and payment behavior to identify at-risk accounts early. Proactive outreach, personalized onboarding, and strategic account management can turn potential churn into expansion opportunities, transforming satisfied customers into advocates who drive referrals and case studies.''\<rparr>]"

text \<open>
  \<open>seedIfEmpty\<close>: when the count fails nothing is done; when the count is 0 each sample is
  inserted in turn (\<open>stmt.run\<close> has no callback, so the result of an insertion is dropped).
\<close>

definition seedIfEmpty :: "db \<Rightarrow> db" where
  "seedIfEmpty d =
     (case countAll d of
        Inl err \<Rightarrow> d
      | Inr count \<Rightarrow>
          if count = 0
          then fold (\<lambda>a d'. snd (insertArticle (title a) (content a) d')) samples d
          else d)"

section \<open>HTTP API (routes/articles.js, index.js)\<close>

text \<open>
  A response is its status and its JSON body; \<open>res.json\<close> without \<open>res.status\<close> answers 200.
  Each handler awaits one call and answers in the \<open>try\<close> or in the \<open>catch\<close> block, so it is
  a function of the outcome of that call: \<open>Inl\<close> the message of the error the promise was
  rejected with, \<open>Inr\<close> the value it resolved with.
\<close>

record response =
  status :: nat
  body :: jsval

definition articleJson :: "article \<Rightarrow> jsval" where
  "articleJson a =
     JObj [(''id'', JNum (of_nat (art_id a))), (''title'', JStr (art_title a)),
           (''content'', JStr (art_content a)), (''created_at'', JStr (created_at a))]"

text \<open>\<open>router.get('/')\<close>\<close>

definition listRoute :: "string + article list \<Rightarrow> response" where
  "listRoute r =
     (case r of
        Inr articles \<Rightarrow> \<lparr>status = 200, body = JArr (map articleJson articles)\<rparr>
      | Inl message \<Rightarrow>
          \<lparr>status = 500,
           body = JObj [(''error'', JStr ''Failed to fetch articles''),
                        (''details'', JStr message)]\<rparr>)"

text \<open>\<open>router.get('/:id')\<close>: \<open>getArticle\<close> resolves with \<open>undefined\<close> when no row has the id.\<close>

definition getRoute :: "string + article option \<Rightarrow> response" where
  "getRoute r =
     (case r of
        Inr None \<Rightarrow> \<lparr>status = 404, body = JObj [(''error'', JStr ''Not found'')]\<rparr>
      | Inr (Some a) \<Rightarrow> \<lparr>status = 200, body = articleJson a\<rparr>
      | Inl message \<Rightarrow>
          \<lparr>status = 500,
           body = JObj [(''error'', JStr ''Failed to fetch article''),
                        (''details'', JStr message)]\<rparr>)"

text \<open>
  \<open>router.post('/generate')\<close>. The topic is \<open>req.body?.topic || default\<close>: \<open>?.\<close> gives
  \<open>undefined\<close> when the body is \<open>null\<close> or \<open>undefined\<close>, and \<open>||\<close> gives its right side when
  the left side is falsy. \<open>createArticle\<close> is the parameter \<open>create\<close>: what the service
  resolves or is rejected with for the topic value it is called with.
\<close>

definition defaultTopic :: string where
  "defaultTopic = ''B2B SaaS and open-source Web3 infrastructure''"

definition optTopic :: "jsval \<Rightarrow> jsval" where
  "optTopic reqBody =
     (case reqBody of
        JUndefined \<Rightarrow> JUndefined
      | JNull \<Rightarrow> JUndefined
      | _ \<Rightarrow> (case getProp reqBody ''topic'' of Inr v \<Rightarrow> v | Inl err \<Rightarrow> JUndefined))"

definition routeTopic :: "jsval \<Rightarrow> jsval" where
  "routeTopic reqBody =
     (let t = optTopic reqBody in if truthy t then t else JStr defaultTopic)"

definition generateRoute :: "(jsval \<Rightarrow> string + article option) \<Rightarrow> jsval \<Rightarrow> response" where
  "generateRoute create reqBody =
     (let topic = routeTopic reqBody
      in case create topic of
           Inr row \<Rightarrow>
             \<lparr>status = 201,
              body = (case row of Some a \<Rightarrow> articleJson a | None \<Rightarrow> JUndefined)\<rparr>
         | Inl message \<Rightarrow>
             \<lparr>status = 500,
              body = JObj [(''error'', JStr ''Failed to generate article''),
                           (''details'', JStr message)]\<rparr>)"

text \<open>
  The topic is a value of the JSON body and need not be a string. \<open>generateArticle\<close> uses it
  in template literals only, which convert it to a string: \<open>undefined\<close>, \<open>null\<close> and the
  booleans by name, a string as it is, an array as its elements joined by commas (\<open>null\<close>
  and \<open>undefined\<close> elements as the empty string), an object as \<open>[object Object]\<close>. An object
  of a JSON body with an own property \<open>toString\<close> has no callable conversion and the
  template literal raises a TypeError. The decimal rendering of a number is the parameter
  \<open>num\<close>.
\<close>

fun sequenceE :: "(js_error + 'a) list \<Rightarrow> js_error + 'a list" where
  "sequenceE [] = Inr []"
| "sequenceE (r # rs) =
     (case r of
        Inl err \<Rightarrow> Inl err
      | Inr v \<Rightarrow> (case sequenceE rs of Inl err \<Rightarrow> Inl err | Inr vs \<Rightarrow> Inr (v # vs)))"

fun templateText :: "(rat \<Rightarrow> string) \<Rightarrow> jsval \<Rightarrow> js_error + string" where
  "templateText num JUndefined = Inr ''undefined''"
| "templateText num JNull = Inr ''null''"
| "templateText num (JBool b) = Inr (if b then ''true'' else ''false'')"
| "templateText num (JNum n) = Inr (num n)"
| "templateText num (JStr s) = Inr s"
| "templateText num (JArr xs) =
     thenE (sequenceE (map (\<lambda>x. if x = JNull \<or> x = JUndefined then Inr []
                                   else templateText num x) xs))
       (\<lambda>parts. Inr (joinWith '','' parts))"
| "templateText num (JObj kvs) =
     (case map_of kvs ''toString'' of
        None \<Rightarrow> Inr ''[object Object]''
      | Some m \<Rightarrow> Inl TypeError)"

text \<open>
  \<open>generateArticle\<close> called with a topic value. The first template literal (the log line)
  is outside the \<open>try\<close> block, so its TypeError leaves the function; after it every use of
  the topic is the same text.
\<close>

definition generateArticleOf :: "(rat \<Rightarrow> string) \<Rightarrow> env \<Rightarrow> jsval \<Rightarrow> js_error + generation_result" where
  "generateArticleOf num e topic = thenE (templateText num topic) (\<lambda>t. generateArticle e t)"

text \<open>The message of the TypeError of a failed conversion, as \<open>err.message\<close> gives it.\<close>

definition errorMessage :: "js_error \<Rightarrow> string" where
  "errorMessage err = (case err of TypeError \<Rightarrow> ''Cannot convert object to primitive value'')"

text \<open>\<open>SELECT id, title, content, created_at FROM articles WHERE id = ?\<close>\<close>

definition fetchById :: "db \<Rightarrow> nat \<Rightarrow> string + article option" where
  "fetchById d i =
     (case fault d of
        Some msg \<Rightarrow> Inl msg
      | None \<Rightarrow> Inr (find (\<lambda>a. art_id a = i) (rows d)))"

text \<open>
  \<open>createArticle\<close>: the default parameter replaces \<open>undefined\<close>; the article is generated,
  inserted, and read back by \<open>this.lastID\<close>. The result is what the promise resolves with or
  the message it is rejected with, and the database after the call.
\<close>

definition createArticle ::
  "(rat \<Rightarrow> string) \<Rightarrow> env \<Rightarrow> db \<Rightarrow> jsval \<Rightarrow> (string + article option) \<times> db" where
  "createArticle num e d topicArg =
     (let topic = (if topicArg = JUndefined then JStr defaultTopic else topicArg)
      in case generateArticleOf num e topic of
           Inl err \<Rightarrow> (Inl (errorMessage err), d)
         | Inr r \<Rightarrow>
             (case insertArticle (title r) (content r) d of
                (Inl msg, d') \<Rightarrow> (Inl msg, d')
              | (Inr i, d') \<Rightarrow> (fetchById d' i, d')))"

definition createArticleResult ::
  "(rat \<Rightarrow> string) \<Rightarrow> env \<Rightarrow> db \<Rightarrow> jsval \<Rightarrow> string + article option" where
  "createArticleResult num e d topicArg = fst (createArticle num e d topicArg)"

text \<open>
  For the examples: a database without rows, and a rendering of numbers for requests in
  which no number occurs.
\<close>

definition emptyDb :: db where
  "emptyDb = \<lparr>rows = [], lastID = 0, now = ''2026-01-01 00:00:00'', fault = None\<rparr>"

definition noNumberText :: "rat \<Rightarrow> string" where
  "noNumberText n = []"

text \<open>\<open>router.get('/diagnostics/ai')\<close>\<close>

definition diagnosticsRoute :: "string + jsval \<Rightarrow> response" where
  "diagnosticsRoute r =
     (case r of
        Inr diagnostics \<Rightarrow> \<lparr>status = 200, body = diagnostics\<rparr>
      | Inl message \<Rightarrow>
          \<lparr>status = 500,
           body = JObj [(''error'', JStr ''Failed to run diagnostics''),
                        (''details'', JStr message)]\<rparr>)"

text \<open>
  \<open>app.get('/health')\<close>: the probe \<open>SELECT 1\<close> on the database, and the reading of the clock
  (\<open>new Date().toISOString()\<close>) taken when the probe succeeded. The result is a sum, as for
  every computation that may raise: \<open>Inl\<close> would be an exception leaving the handler.
\<close>

definition probe :: "db \<Rightarrow> string + unit" where
  "probe d = (case fault d of Some msg \<Rightarrow> Inl msg | None \<Rightarrow> Inr ())"

definition health :: "db \<Rightarrow> string \<Rightarrow> string + response" where
  "health d timestamp =
     (case probe d of
        Inr u \<Rightarrow>
          Inr \<lparr>status = 200,
               body = JObj [(''ok'', JBool True), (''db'', JStr ''connected''),
                            (''timestamp'', JStr timestamp)]\<rparr>
      | Inl message \<Rightarrow>
          Inr \<lparr>status = 503,
               body = JObj [(''ok'', JBool False), (''db'', JStr ''disconnected''),
                            (''error'', JStr message)]\<rparr>)"

text \<open>A body that is an object with a string \<open>error\<close> and a string \<open>details\<close>.\<close>

definition hasStringField :: "jsval \<Rightarrow> string \<Rightarrow> bool" where
  "hasStringField v k =
     (case v of
        JObj kvs \<Rightarrow> (case map_of kvs k of Some x \<Rightarrow> isJStr x | None \<Rightarrow> False)
      | _ \<Rightarrow> False)"

definition errorWithDetails :: "jsval \<Rightarrow> bool" where
  "errorWithDetails v = (hasStringField v ''error'' \<and> hasStringField v ''details'')"

section \<open>Properties of the generation client\<close>

subsection \<open>The fallback article\<close>

text \<open>
  C2, as amended. \<open>generateFallback\<close> is a function of the topic alone (it reads no
  environment and makes no request, and no branch of it raises): the title is
  \<open>Fallback article on\<close> followed by the topic, and the content is three paragraphs joined
  by blank lines. The topic is interpolated into the first and the third paragraph; the
  second paragraph is a fixed sentence.
\<close>

theorem generateFallback_template:
  "generateFallback t =
     \<lparr>title = ''Fallback article on '' @ t,
      content = fallbackParagraphs t ! 0 @ [newline, newline]
                @ fallbackParagraphs t ! 1 @ [newline, newline]
                @ fallbackParagraphs t ! 2\<rparr>
   \<and> length (fallbackParagraphs t) = 3
   \<and> sublist t (fallbackParagraphs t ! 0)
   \<and> fallbackParagraphs t ! 1 =
       ''Practitioners emphasize iterative learning, pragmatic tooling, and measurable outcomes as the best path to sustainable progress.''
   \<and> sublist t (fallbackParagraphs t ! 2)"
proof -
  have mid: "sublist t (ps @ t @ ss)" for ps ss :: string
    by (rule sublist_appendI)
  have p0: "sublist t (fallbackParagraphs t ! 0)"
    using mid [of "''In today's fast-paced landscape, ''"
                  "'' continues to shape how teams deliver value.''"]
    by (simp add: fallbackParagraphs_def)
  have p2: "sublist t (fallbackParagraphs t ! 2)"
    using mid [of "''Looking ahead, expect lightweight automation, sensible defaults, and a human-first perspective to remain central to successful ''"
                  "'' initiatives.''"]
    by (simp add: fallbackParagraphs_def)
  show ?thesis using p0 p2
    by (simp add: generateFallback_def fallbackParagraphs_def)
qed

text \<open>
  C2 as it is written asks for the topic in each of the three paragraphs. For the topic
  \<open>DAOs\<close> the second paragraph does not contain it.
\<close>

theorem fallback_second_paragraph_counterexample:
  "\<not> sublist ''DAOs'' (fallbackParagraphs ''DAOs'' ! 1)"
  by (simp add: fallbackParagraphs_def) code_simp

subsection \<open>The candidate list\<close>

lemma fold_setAdd: "fold setAdd xs acc = acc @ firstSeen (filter (\<lambda>x. x \<notin> set acc) xs)"
proof (induction xs arbitrary: acc)
  case Nil
  then show ?case by simp
next
  case (Cons x xs)
  show ?case
  proof (cases "x \<in> set acc")
    case True
    then show ?thesis using Cons.IH [of acc] by (simp add: setAdd_def)
  next
    case False
    have "removeAll x (filter (\<lambda>y. y \<notin> set acc) xs) = filter (\<lambda>y. y \<notin> set (acc @ [x])) xs"
      by (induction xs) auto
    then show ?thesis using False Cons.IH [of "acc @ [x]"] by (simp add: setAdd_def)
  qed
qed

lemma newSet_firstSeen: "newSet xs = firstSeen xs"
  by (simp add: newSet_def fold_setAdd)

lemma firstSeen_distinct: "distinct xs \<Longrightarrow> firstSeen xs = xs"
  by (induction xs) simp_all

lemma distinct_alternativeFreeModels: "distinct alternativeFreeModels"
  by (simp add: alternativeFreeModels_def)

lemma firstSeen_candidates:
  "distinct alts \<Longrightarrow> firstSeen (m # filter (\<lambda>a. a \<noteq> m) alts) = m # filter (\<lambda>a. a \<noteq> m) alts"
  by (rule firstSeen_distinct) simp

lemma modelsToTry_eq: "modelsToTry m = m # filter (\<lambda>a. a \<noteq> m) alternativeFreeModels"
proof (cases "m \<in> set alternativeFreeModels")
  case True
  then show ?thesis by (simp add: modelsToTry_def)
next
  case False
  then have "filter (\<lambda>a. a \<noteq> m) alternativeFreeModels = alternativeFreeModels"
    by (intro filter_True) auto
  with False show ?thesis by (simp add: modelsToTry_def)
qed

lemma uniqueModels_eq: "uniqueModels m = m # filter (\<lambda>a. a \<noteq> m) alternativeFreeModels"
  by (simp only: uniqueModels_def newSet_firstSeen modelsToTry_eq
        firstSeen_candidates [OF distinct_alternativeFreeModels])

text \<open>
  C4. For every configured model \<open>m\<close> the list of candidates is the one the specification
  describes: \<open>m\<close>, then the alternative free-tier models other than \<open>m\<close>, duplicates removed
  in first-seen order. It starts with \<open>m\<close>, has no duplicates and contains every
  alternative model.
\<close>

theorem uniqueModels_candidates:
  "uniqueModels m = specCandidates m alternativeFreeModels
   \<and> uniqueModels m = m # filter (\<lambda>a. a \<noteq> m) alternativeFreeModels
   \<and> hd (uniqueModels m) = m
   \<and> distinct (uniqueModels m)
   \<and> set alternativeFreeModels \<subseteq> set (uniqueModels m)"
proof -
  have u: "uniqueModels m = specCandidates m alternativeFreeModels"
    by (simp only: uniqueModels_def specCandidates_def newSet_firstSeen modelsToTry_eq)
  have e: "uniqueModels m = m # filter (\<lambda>a. a \<noteq> m) alternativeFreeModels"
    by (rule uniqueModels_eq)
  have d: "distinct (uniqueModels m)"
    unfolding e using distinct_alternativeFreeModels by simp
  have s: "set alternativeFreeModels \<subseteq> set (uniqueModels m)"
    unfolding e by auto
  have h: "hd (uniqueModels m) = m"
    unfolding e by simp
  show ?thesis using u e h d s by blast
qed

theorem uniqueModels_candidates_witness:
  "uniqueModels ''google/gemini-flash-1.5:free'' =
     [''google/gemini-flash-1.5:free'',
      ''meta-llama/llama-3.2-3b-instruct:free'',
      ''meta-llama/llama-3.1-8b-instruct:free'',
      ''mistralai/mistral-7b-instruct:free'',
      ''qwen/qwen-2-7b-instruct:free'']"
proof -
  have "uniqueModels ''google/gemini-flash-1.5:free'' =
          ''google/gemini-flash-1.5:free''
          # filter (\<lambda>a. a \<noteq> ''google/gemini-flash-1.5:free'') alternativeFreeModels"
    using uniqueModels_candidates [of "''google/gemini-flash-1.5:free''"] by blast
  then show ?thesis by (simp add: alternativeFreeModels_def)
qed

subsection \<open>Normalisation of the response\<close>

lemma getProp_field: "v \<noteq> JNull \<Longrightarrow> v \<noteq> JUndefined \<Longrightarrow> getProp v k = Inr (field v k)"
  by (cases v) (simp_all add: field_def split: option.splits)

lemma truthy_getProp: "truthy v \<Longrightarrow> getProp v k = Inr (field v k)"
  by (rule getProp_field) auto

lemma field_falsy: "\<not> truthy v \<Longrightarrow> field v k = JUndefined"
  by (cases v) (simp_all add: field_def)

lemma normalizeGeneric_spec:
  "truthy r \<Longrightarrow>
   normalizeGeneric r =
     Inr (case find truthy [if isJStr r then r else JUndefined, field r ''content'', field r ''text'']
          of Some v \<Rightarrow> v | None \<Rightarrow> JNull)"
  by (cases r) (simp_all add: normalizeGeneric_def thenE_def isJStr_def field_def split: option.splits)

lemma normalizeChoices_none:
  "truthy r \<Longrightarrow> firstChoice r = None \<Longrightarrow> normalizeChoices r = Inr None"
  by (auto simp: normalizeChoices_def thenE_def truthy_getProp firstChoice_def
           split: jsval.splits list.splits)

lemma normalizeChoices_some:
  assumes "truthy r" "firstChoice r = Some c" "c \<noteq> JNull" "c \<noteq> JUndefined"
  shows "normalizeChoices r =
           Inr (find truthy [field (field c ''message'') ''content'', field c ''text''])"
proof -
  have ch: "getProp r ''choices'' = Inr (field r ''choices'')"
    using assms(1) by (rule truthy_getProp)
  obtain cs where f: "field r ''choices'' = JArr (c # cs)"
    using assms(2) by (auto simp: firstChoice_def split: jsval.splits list.splits)
  have m: "getProp c k = Inr (field c k)" for k
    using assms(3,4) by (rule getProp_field)
  show ?thesis
  proof (cases "truthy (field c ''message'')")
    case True
    then show ?thesis
      by (simp add: normalizeChoices_def thenE_def ch f m truthy_getProp)
  next
    case False
    then have "\<not> truthy (field (field c ''message'') ''content'')"
      by (simp add: field_falsy)
    with False show ?thesis
      by (simp add: normalizeChoices_def thenE_def ch f m)
  qed
qed

text \<open>
  Whenever the first choice is not \<open>null\<close> (or \<open>undefined\<close>), the function returns what the
  priority order of the specification gives.
\<close>

lemma normalizeGeneratedText_priority:
  assumes "firstChoice r \<noteq> Some JNull" "firstChoice r \<noteq> Some JUndefined"
  shows "normalizeGeneratedText r = Inr (specNormalize r)"
proof (cases "truthy r")
  case False
  then have "find truthy (specSources r) = None"
    by (cases r) (simp_all add: specSources_def firstChoice_def field_def isJStr_def)
  with False show ?thesis
    by (simp add: normalizeGeneratedText_def specNormalize_def)
next
  case True
  show ?thesis
  proof (cases "firstChoice r")
    case None
    then show ?thesis
      using True
      by (simp add: normalizeGeneratedText_def thenE_def normalizeChoices_none
            normalizeGeneric_spec specNormalize_def specSources_def)
  next
    case (Some c)
    with assms have "c \<noteq> JNull" "c \<noteq> JUndefined" by auto
    from normalizeChoices_some [OF True Some this]
    show ?thesis
      using True Some
      by (simp add: normalizeGeneratedText_def thenE_def 
            normalizeGeneric_spec specNormalize_def specSources_def)
  qed
qed

text \<open>
  C6. The priority order fails for a response whose \<open>choices\<close> array starts with \<open>null\<close>:
  \<open>choice.message\<close> is read without a test on \<open>choice\<close> and raises a TypeError, so the
  fields \<open>content\<close> and \<open>text\<close> of the response are never looked at. For the body
  \<open>{"choices": [null], "content": "hi"}\<close> the function raises, where the priority order gives
  the text \<open>hi\<close>.
\<close>

theorem normalizeGeneratedText_null_choice:
  "normalizeGeneratedText (JObj [(''choices'', JArr [JNull]), (''content'', JStr ''hi'')])
     = Inl TypeError
   \<and> specNormalize (JObj [(''choices'', JArr [JNull]), (''content'', JStr ''hi'')]) = JStr ''hi''"
  by (simp add: normalizeGeneratedText_def normalizeChoices_def thenE_def specNormalize_def
        specSources_def firstChoice_def field_def isJStr_def)

subsection \<open>Parsing the generated text\<close>

lemma filter_first: "(case filter P xs of [] \<Rightarrow> None | l # ls \<Rightarrow> Some l) = find P xs"
  by (induction xs) auto

lemma filter_rest: "drop 1 (filter P xs) = filter P (drop 1 (dropWhile (\<lambda>x. \<not> P x) xs))"
  by (induction xs) auto

lemma stripHeading_Nil: "trim (stripHeading []) = []"
  by (simp add: trim_def stripHeading_def)

lemma parseGenerated_title:
  "title (parseGenerated topic raw) =
     (case firstNonEmptyLine (split_nl (trim raw)) of
        None \<Rightarrow> ''New article on '' @ topic
      | Some l \<Rightarrow> if trim (stripHeading l) = [] then ''New article on '' @ topic
                  else take 140 (trim (stripHeading l)))"
proof -
  let ?ls = "split_nl (trim raw)"
  have f: "find (\<lambda>l. l \<noteq> []) ?ls = (case filter (\<lambda>l. l \<noteq> []) ?ls of [] \<Rightarrow> None | l # ls \<Rightarrow> Some l)"
    by (rule filter_first [symmetric])
  show ?thesis
  proof (cases "filter (\<lambda>l. l \<noteq> []) ?ls")
    case Nil
    then show ?thesis
      using f by (simp add: parseGenerated_def firstNonEmptyLine_def Let_def stripHeading_Nil)
  next
    case (Cons l ls)
    then show ?thesis
      using f by (simp add: parseGenerated_def firstNonEmptyLine_def Let_def)
  qed
qed

lemma parseGenerated_content_lines:
  "content (parseGenerated topic raw) =
     (if drop 1 (filter (\<lambda>l. l \<noteq> []) (split_nl (trim raw))) = [] then trim raw
      else trim (joinWith [newline] (drop 1 (filter (\<lambda>l. l \<noteq> []) (split_nl (trim raw))))))"
  unfolding parseGenerated_def Let_def
  by (simp only: generation_result.select_convs length_greater_0_conv if_not_P split: if_splits) auto

lemma parseGenerated_content:
  "content (parseGenerated topic raw) =
     (if remainingNonEmptyLines (split_nl (trim raw)) = [] then trim raw
      else trim (joinWith [newline] (remainingNonEmptyLines (split_nl (trim raw)))))"
proof -
  have "drop 1 (filter (\<lambda>l. l \<noteq> []) (split_nl (trim raw)))
          = remainingNonEmptyLines (split_nl (trim raw))"
    unfolding remainingNonEmptyLines_def by (simp only: filter_rest not_not)
  then show ?thesis
    by (simp only: parseGenerated_content_lines)
qed

lemma parseGenerated_hello:
  "parseGenerated topic (''# Hello'' @ [newline] @ ''World'') = \<lparr>title = ''Hello'', content = ''World''\<rparr>"
  by (simp add: parseGenerated_def trim_def is_ws_def newline_def stripHeading_def Let_def)

text \<open>
  Empty lines are skipped and the white space at the end of the title line is removed with
  the heading markers.
\<close>

lemma parseGenerated_title_trimmed:
  "parseGenerated topic (''## Hello  '' @ [newline, newline] @ ''World'' @ [newline])
     = \<lparr>title = ''Hello'', content = ''World''\<rparr>"
  by (simp add: parseGenerated_def trim_def is_ws_def newline_def stripHeading_def Let_def)

text \<open>
  C5. The lines are those of the trimmed text. The title is the first non-empty line with
  the heading markers stripped (the run of \<open>#\<close>, the white space after it, and the white
  space around what is left), cut to 140 characters; when nothing is left, or there is no
  line, it is \<open>New article on\<close> followed by the topic. The content is the remaining
  non-empty lines joined by line feeds and trimmed, or the whole trimmed text when no line
  remains. The text \<open># Hello\nWorld\<close> gives the title \<open>Hello\<close> and the content \<open>World\<close>.
\<close>

theorem parseGenerated_spec:
  "title (parseGenerated topic raw) =
     (case firstNonEmptyLine (split_nl (trim raw)) of
        None \<Rightarrow> ''New article on '' @ topic
      | Some l \<Rightarrow> if trim (stripHeading l) = [] then ''New article on '' @ topic
                  else take 140 (trim (stripHeading l)))
   \<and> content (parseGenerated topic raw) =
     (if remainingNonEmptyLines (split_nl (trim raw)) = [] then trim raw
      else trim (joinWith [newline] (remainingNonEmptyLines (split_nl (trim raw)))))
   \<and> parseGenerated topic (''# Hello'' @ [newline] @ ''World'')
       = \<lparr>title = ''Hello'', content = ''World''\<rparr>"
  using parseGenerated_title [of topic raw] parseGenerated_content [of topic raw]
        parseGenerated_hello [of topic]
  by blast

subsection \<open>The loop over the candidates\<close>

lemma default_candidates:
  "AI_MODEL e = None \<Longrightarrow> uniqueModels (configuredModel e) = alternativeFreeModels"
  by (simp add: configuredModel_def trim_def fallbackModel_def uniqueModels_eq
        alternativeFreeModels_def)

lemma normalize_helloBody:
  "normalizeGeneratedText helloBody = Inr (JStr (''# Hello'' @ [newline] @ ''World''))"
  by (simp add: helloBody_def normalizeGeneratedText_def normalizeChoices_def thenE_def)

lemma tryModels_step_fail:
  "candidateFails post m \<Longrightarrow>
   tryModels post (m # ms) = (fst (tryModels post ms), m # snd (tryModels post ms))"
  by (auto simp: candidateFails_def candidateText_def unauthorized_def split_beta
           split: reply.splits sum.splits if_splits)

lemma tryModels_step_text:
  "candidateText post m = Some t \<Longrightarrow> tryModels post (m # ms) = (t, [m])"
  by (auto simp: candidateText_def split: reply.splits sum.splits if_splits)

lemma tryModels_step_unauthorized:
  "unauthorized post m \<Longrightarrow> tryModels post (m # ms) = (JNull, [m])"
  by (simp add: unauthorized_def)

lemma tryModels_success:
  "\<forall>x\<in>set pre. candidateFails post x \<Longrightarrow> candidateText post m = Some t \<Longrightarrow>
   tryModels post (pre @ m # rest) = (t, pre @ [m])"
proof (induction pre)
  case Nil
  then show ?case by (simp add: tryModels_step_text del: tryModels.simps)
next
  case (Cons a pre)
  then show ?case by (simp add: tryModels_step_fail del: tryModels.simps)
qed

lemma tryModels_unauthorized:
  "\<forall>x\<in>set pre. candidateFails post x \<Longrightarrow> unauthorized post m \<Longrightarrow>
   tryModels post (pre @ m # rest) = (JNull, pre @ [m])"
proof (induction pre)
  case Nil
  then show ?case by (simp add: tryModels_step_unauthorized del: tryModels.simps)
next
  case (Cons a pre)
  then show ?case by (simp add: tryModels_step_fail del: tryModels.simps)
qed

lemma tryModels_exhausted:
  "\<forall>x\<in>set ms. candidateFails post x \<Longrightarrow> tryModels post ms = (JNull, ms)"
proof (induction ms)
  case Nil
  then show ?case by simp
next
  case (Cons a ms)
  then show ?case by (simp add: tryModels_step_fail del: tryModels.simps)
qed

lemma candidateText_truthy: "candidateText post m = Some t \<Longrightarrow> truthy t"
  by (auto simp: candidateText_def split: reply.splits sum.splits if_splits)

lemma generateViaOpenRouter_accepted:
  "credentialAccepted e \<Longrightarrow>
   generateViaOpenRouter e (articlePrompt topic) =
     (fst (tryModels (chatOf e topic) (uniqueModels (configuredModel e))),
      GetModels # map PostChat (snd (tryModels (chatOf e topic) (uniqueModels (configuredModel e)))))"
  by (auto simp: credentialAccepted_def generateViaOpenRouter_def chatOf_def split_beta
           split: option.splits)

lemma generateArticle_null:
  "fst (generateViaOpenRouter e (articlePrompt topic)) = JNull \<Longrightarrow>
   generateArticle e topic = Inr (generateFallback topic)"
  by (simp add: generateArticle_def generateArticleTry_def)

lemma generateArticle_text:
  "fst (generateViaOpenRouter e (articlePrompt topic)) = JStr s \<Longrightarrow> s \<noteq> [] \<Longrightarrow>
   generateArticle e topic = Inr (parseGenerated topic s)"
  by (simp add: generateArticle_def generateArticleTry_def)

text \<open>
  C3. With an accepted credential and the candidate list \<open>pre @ m # rest\<close>:
  when every candidate of \<open>pre\<close> fails and \<open>m\<close> yields text, that text is returned and the
  requests made are the listing and one post for each model of \<open>pre @ [m]\<close>, none for
  \<open>rest\<close>; when \<open>m\<close> is answered 401 instead, the requests are the same, none follows, and
  the fallback article is returned; when every candidate fails, each is tried once and the
  fallback article is returned. A candidate fails when its request is rejected with a
  status other than 401 or with none (429, 400, 404, a time-out), or when no text can be
  extracted from its response.
\<close>

theorem candidate_loop:
  "(credentialAccepted e \<and> uniqueModels (configuredModel e) = pre @ m # rest
      \<and> (\<forall>x\<in>set pre. candidateFails (chatOf e topic) x)
      \<and> candidateText (chatOf e topic) m = Some t
    \<longrightarrow> generateViaOpenRouter e (articlePrompt topic) = (t, GetModels # map PostChat (pre @ [m]))
        \<and> truthy t
        \<and> (\<forall>s. t = JStr s \<longrightarrow> generateArticle e topic = Inr (parseGenerated topic s)))
   \<and> (credentialAccepted e \<and> uniqueModels (configuredModel e) = pre @ m # rest
      \<and> (\<forall>x\<in>set pre. candidateFails (chatOf e topic) x)
      \<and> unauthorized (chatOf e topic) m
    \<longrightarrow> externalCalls e topic = GetModels # map PostChat (pre @ [m])
        \<and> generateArticle e topic = Inr (generateFallback topic))
   \<and> (credentialAccepted e
      \<and> (\<forall>x\<in>set (uniqueModels (configuredModel e)). candidateFails (chatOf e topic) x)
    \<longrightarrow> externalCalls e topic = GetModels # map PostChat (uniqueModels (configuredModel e))
        \<and> generateArticle e topic = Inr (generateFallback topic))
   \<and> (candidateFails (chatOf e topic) x
        \<longleftrightarrow> (case chatOf e topic x of
               Rejected st \<Rightarrow> st \<noteq> Some 401
             | Resolved data \<Rightarrow>
                 (case normalizeGeneratedText data of Inr v \<Rightarrow> \<not> truthy v | Inl err \<Rightarrow> True)))"
proof -
  let ?post = "chatOf e topic"
  let ?cs = "uniqueModels (configuredModel e)"
  have a: "generateViaOpenRouter e (articlePrompt topic) = (t, GetModels # map PostChat (pre @ [m]))
           \<and> truthy t
           \<and> (\<forall>s. t = JStr s \<longrightarrow> generateArticle e topic = Inr (parseGenerated topic s))"
    if acc: "credentialAccepted e" and cs: "?cs = pre @ m # rest"
      and f: "\<forall>x\<in>set pre. candidateFails ?post x" and tx: "candidateText ?post m = Some t"
  proof -
    have g: "generateViaOpenRouter e (articlePrompt topic) = (t, GetModels # map PostChat (pre @ [m]))"
      unfolding generateViaOpenRouter_accepted [OF acc] cs tryModels_success [OF f tx]
      by simp
    have tr: "truthy t"
      using tx by (rule candidateText_truthy)
    have "generateArticle e topic = Inr (parseGenerated topic s)" if "t = JStr s" for s
      using g tr that by (intro generateArticle_text) auto
    then show ?thesis using g tr by blast
  qed
  have b: "externalCalls e topic = GetModels # map PostChat (pre @ [m])
           \<and> generateArticle e topic = Inr (generateFallback topic)"
    if acc: "credentialAccepted e" and cs: "?cs = pre @ m # rest"
      and f: "\<forall>x\<in>set pre. candidateFails ?post x" and un: "unauthorized ?post m"
  proof -
    have g: "generateViaOpenRouter e (articlePrompt topic) = (JNull, GetModels # map PostChat (pre @ [m]))"
      unfolding generateViaOpenRouter_accepted [OF acc] cs tryModels_unauthorized [OF f un]
      by simp
    then show ?thesis
      by (simp add: externalCalls_def generateArticle_null)
  qed
  have c: "externalCalls e topic = GetModels # map PostChat ?cs
           \<and> generateArticle e topic = Inr (generateFallback topic)"
    if acc: "credentialAccepted e" and f: "\<forall>x\<in>set ?cs. candidateFails ?post x"
  proof -
    have g: "generateViaOpenRouter e (articlePrompt topic) = (JNull, GetModels # map PostChat ?cs)"
      unfolding generateViaOpenRouter_accepted [OF acc] tryModels_exhausted [OF f]
      by simp
    then show ?thesis
      by (simp add: externalCalls_def generateArticle_null)
  qed
  have d: "candidateFails ?post x
        \<longleftrightarrow> (case ?post x of
               Rejected st \<Rightarrow> st \<noteq> Some 401
             | Resolved data \<Rightarrow>
                 (case normalizeGeneratedText data of Inr v \<Rightarrow> \<not> truthy v | Inl err \<Rightarrow> True))"
    by (auto simp: candidateFails_def candidateText_def unauthorized_def
             split: reply.splits sum.splits)
  show ?thesis using a b c d by blast
qed

theorem candidate_loop_witness:
  "generateViaOpenRouter thirdAnswersEnv (articlePrompt ''DAOs'')
     = (JStr (''# Hello'' @ [newline] @ ''World''),
        [GetModels, PostChat ''meta-llama/llama-3.2-3b-instruct:free'',
         PostChat ''meta-llama/llama-3.1-8b-instruct:free'',
         PostChat ''google/gemini-flash-1.5:free''])
   \<and> generateArticle thirdAnswersEnv ''DAOs'' = Inr \<lparr>title = ''Hello'', content = ''World''\<rparr>
   \<and> externalCalls unauthorizedEnv ''DAOs''
       = [GetModels, PostChat ''meta-llama/llama-3.2-3b-instruct:free'']
   \<and> generateArticle unauthorizedEnv ''DAOs'' = Inr (generateFallback ''DAOs'')
   \<and> externalCalls rateLimitedEnv ''DAOs'' = GetModels # map PostChat alternativeFreeModels
   \<and> generateArticle rateLimitedEnv ''DAOs'' = Inr (generateFallback ''DAOs'')"
proof -
  have a1: "credentialAccepted thirdAnswersEnv"
    by (simp add: credentialAccepted_def thirdAnswersEnv_def verifyToken_def)
  have c1: "uniqueModels (configuredModel thirdAnswersEnv)
              = [''meta-llama/llama-3.2-3b-instruct:free'', ''meta-llama/llama-3.1-8b-instruct:free'']
                @ ''google/gemini-flash-1.5:free''
                # [''mistralai/mistral-7b-instruct:free'', ''qwen/qwen-2-7b-instruct:free'']"
    by (simp add: default_candidates thirdAnswersEnv_def alternativeFreeModels_def)
  have f1: "\<forall>x\<in>set [''meta-llama/llama-3.2-3b-instruct:free'', ''meta-llama/llama-3.1-8b-instruct:free''].
              candidateFails (chatOf thirdAnswersEnv ''DAOs'') x"
    by (simp add: candidateFails_def candidateText_def unauthorized_def chatOf_def
          thirdAnswersEnv_def)
  have t1: "candidateText (chatOf thirdAnswersEnv ''DAOs'') ''google/gemini-flash-1.5:free''
              = Some (JStr (''# Hello'' @ [newline] @ ''World''))"
    by (simp add: candidateText_def chatOf_def thirdAnswersEnv_def normalize_helloBody)
  have a2: "credentialAccepted unauthorizedEnv"
    by (simp add: credentialAccepted_def unauthorizedEnv_def verifyToken_def)
  have c2: "uniqueModels (configuredModel unauthorizedEnv)
              = [] @ ''meta-llama/llama-3.2-3b-instruct:free''
                # [''meta-llama/llama-3.1-8b-instruct:free'', ''google/gemini-flash-1.5:free'',
                   ''mistralai/mistral-7b-instruct:free'', ''qwen/qwen-2-7b-instruct:free'']"
    by (simp add: default_candidates unauthorizedEnv_def alternativeFreeModels_def)
  have u2: "unauthorized (chatOf unauthorizedEnv ''DAOs'') ''meta-llama/llama-3.2-3b-instruct:free''"
    by (simp add: unauthorized_def chatOf_def unauthorizedEnv_def)
  have a3: "credentialAccepted rateLimitedEnv"
    by (simp add: credentialAccepted_def rateLimitedEnv_def verifyToken_def)
  have c3: "uniqueModels (configuredModel rateLimitedEnv) = alternativeFreeModels"
    by (simp add: default_candidates rateLimitedEnv_def)
  have f3: "\<forall>x\<in>set (uniqueModels (configuredModel rateLimitedEnv)).
              candidateFails (chatOf rateLimitedEnv ''DAOs'') x"
    by (simp add: candidateFails_def candidateText_def unauthorized_def chatOf_def
          rateLimitedEnv_def)
  have p: "parseGenerated ''DAOs'' (''# Hello'' @ [newline] @ ''World'')
             = \<lparr>title = ''Hello'', content = ''World''\<rparr>"
    by (rule parseGenerated_hello)
  show ?thesis
    using candidate_loop [of thirdAnswersEnv
            "[''meta-llama/llama-3.2-3b-instruct:free'', ''meta-llama/llama-3.1-8b-instruct:free'']"
            "''google/gemini-flash-1.5:free''"
            "[''mistralai/mistral-7b-instruct:free'', ''qwen/qwen-2-7b-instruct:free'']"
            "''DAOs''" "JStr (''# Hello'' @ [newline] @ ''World'')"] a1 c1 f1 t1
          candidate_loop [of unauthorizedEnv "[]" "''meta-llama/llama-3.2-3b-instruct:free''"
            "[''meta-llama/llama-3.1-8b-instruct:free'', ''google/gemini-flash-1.5:free'',
              ''mistralai/mistral-7b-instruct:free'', ''qwen/qwen-2-7b-instruct:free'']"
            "''DAOs''"] a2 c2 u2
          candidate_loop [of rateLimitedEnv _ _ _ "''DAOs''"] a3 c3 f3 p
    by simp
qed

subsection \<open>The article that is returned\<close>

lemma trim_Nil_iff: "trim s = [] \<longleftrightarrow> (\<forall>c\<in>set s. is_ws c)"
proof
  assume "trim s = []"
  then have "\<forall>c\<in>set (dropWhile is_ws s). is_ws c"
    by (simp add: trim_def dropWhile_eq_Nil_conv)
  then have "dropWhile is_ws s = []"
    using hd_dropWhile [of is_ws s] by (cases "dropWhile is_ws s") auto
  then show "\<forall>c\<in>set s. is_ws c"
    by (simp add: dropWhile_eq_Nil_conv)
next
  assume "\<forall>c\<in>set s. is_ws c"
  then have "dropWhile is_ws s = []"
    by (simp add: dropWhile_eq_Nil_conv)
  then show "trim s = []"
    by (simp only: trim_def) simp
qed

lemma last_trim: "trim s \<noteq> [] \<Longrightarrow> \<not> is_ws (last (trim s))"
proof -
  let ?r = "dropWhile is_ws (rev (dropWhile is_ws s))"
  assume "trim s \<noteq> []"
  then have ne: "?r \<noteq> []" by (simp add: trim_def)
  then have "\<not> is_ws (hd ?r)" by (rule hd_dropWhile)
  moreover have "last (trim s) = hd ?r"
    using ne by (simp add: trim_def last_rev)
  ultimately show ?thesis by simp
qed

lemma last_filter_keep: "xs \<noteq> [] \<Longrightarrow> P (last xs) \<Longrightarrow> last (filter P xs) = last xs"
  by (induction xs rule: rev_induct) auto

lemma split_nl_nonempty: "split_nl u \<noteq> []"
  by (cases u) (simp_all split: list.splits)

lemma split_nl_last:
  "u \<noteq> [] \<Longrightarrow> last u \<noteq> newline \<Longrightarrow> last (split_nl u) \<noteq> [] \<and> last (last (split_nl u)) = last u"
proof (induction u)
  case Nil
  then show ?case by simp
next
  case (Cons c cs)
  show ?case
  proof (cases "cs = []")
    case True
    with Cons.prems show ?thesis by simp
  next
    case False
    with Cons.prems have l: "last cs \<noteq> newline" by simp
    from Cons.IH [OF False l]
    have ih: "last (split_nl cs) \<noteq> []" "last (last (split_nl cs)) = last cs" by auto
    obtain x xs where sp: "split_nl cs = x # xs"
      using split_nl_nonempty [of cs] by (cases "split_nl cs") auto
    show ?thesis
      using ih False sp by (cases "xs = []") (auto simp: last_ConsR)
  qed
qed

lemma joinWith_last: "xs \<noteq> [] \<Longrightarrow> \<exists>p. joinWith sep xs = p @ last xs"
proof (induction sep xs rule: joinWith.induct)
  case (1 sep)
  then show ?case by simp
next
  case (2 sep x)
  then show ?case by simp
next
  case (3 sep x y ys)
  then obtain p where "joinWith sep (y # ys) = p @ last (y # ys)" by auto
  then have "joinWith sep (x # y # ys) = (x @ sep @ p) @ last (x # y # ys)" by simp
  then show ?case by blast
qed

lemma parseGenerated_content_nonempty:
  assumes "\<exists>c\<in>set s. \<not> is_ws c"
  shows "content (parseGenerated topic s) \<noteq> []"
proof -
  let ?u = "trim s"
  let ?lines = "filter (\<lambda>l. l \<noteq> []) (split_nl ?u)"
  have u: "?u \<noteq> []" using assms by (simp add: trim_Nil_iff)
  have nws: "\<not> is_ws (last ?u)" using u by (rule last_trim)
  then have "last ?u \<noteq> newline" by (auto simp: is_ws_def newline_def)
  from split_nl_last [OF u this]
  have l1: "last (split_nl ?u) \<noteq> []" and l2: "last (last (split_nl ?u)) = last ?u" by auto
  have ll: "last ?lines = last (split_nl ?u)"
    using l1 split_nl_nonempty [of ?u] by (intro last_filter_keep)
  show ?thesis
  proof (cases "drop 1 ?lines = []")
    case True
    then show ?thesis using u by (simp add: parseGenerated_content_lines del: drop_eq_Nil)
  next
    case False
    then have "last (drop 1 ?lines) = last ?lines" by simp
    with ll have ld: "last (drop 1 ?lines) = last (split_nl ?u)" by simp
    obtain p where "joinWith [newline] (drop 1 ?lines) = p @ last (split_nl ?u)"
      using joinWith_last [OF False, of "[newline]"] ld by auto
    then have "last ?u \<in> set (joinWith [newline] (drop 1 ?lines))"
      using l1 l2 last_in_set [of "last (split_nl ?u)"] by auto
    then have "trim (joinWith [newline] (drop 1 ?lines)) \<noteq> []"
      using nws by (auto simp: trim_Nil_iff)
    then show ?thesis using False by (simp add: parseGenerated_content_lines del: drop_eq_Nil)
  qed
qed

lemma parseGenerated_title_nonempty: "title (parseGenerated topic s) \<noteq> []"
  by (simp add: parseGenerated_def Let_def)

lemma parseGenerated_title_length:
  "title (parseGenerated topic s) \<noteq> ''New article on '' @ topic \<Longrightarrow>
   length (title (parseGenerated topic s)) \<le> 140"
  by (simp add: parseGenerated_def Let_def split: if_splits)

lemma parseGenerated_title_bound:
  "length topic \<le> 120 \<Longrightarrow> length (title (parseGenerated topic s)) \<le> 140"
  by (simp add: parseGenerated_def Let_def)

lemma fallback_content_nonempty: "content (generateFallback t) \<noteq> []"
  by (simp add: generateFallback_def fallbackParagraphs_def)

text \<open>A generated text of white space only is parsed into an empty content.\<close>

lemma parseGenerated_blank:
  "parseGenerated ''DAOs'' ''   '' = \<lparr>title = ''New article on DAOs'', content = []\<rparr>"
  by (simp add: parseGenerated_def trim_def is_ws_def stripHeading_def Let_def)

text \<open>
  C1, as amended. For every environment and topic, \<open>generateArticle\<close> returns an article
  and raises nothing. The title is never empty; it has at most 140 characters when it is
  taken from the generated text, and in every case when the topic has at most 120
  characters (the fallback title and the synthesized title carry the whole topic). The
  content is not empty on the fallback path, and on the other path whenever the generated
  text has a character that is not white space. Without a credential the fallback article
  is returned and no request is made; on the fallback path the title is
  \<open>Fallback article on\<close> followed by the topic.
\<close>

theorem generateArticle_total:
  "\<exists>r. generateArticle e t = Inr r
       \<and> title r \<noteq> []
       \<and> (length t \<le> 120 \<longrightarrow> length (title r) \<le> 140)
       \<and> (\<forall>s. fst (generateViaOpenRouter e (articlePrompt t)) = JStr s \<and> s \<noteq> []
              \<and> title r \<noteq> ''New article on '' @ t
            \<longrightarrow> length (title r) \<le> 140)
       \<and> ((\<forall>s. fst (generateViaOpenRouter e (articlePrompt t)) = JStr s \<and> s \<noteq> []
               \<longrightarrow> (\<exists>c\<in>set s. \<not> is_ws c))
            \<longrightarrow> content r \<noteq> [])
       \<and> (OPENROUTER_API_KEY e = None \<or> OPENROUTER_API_KEY e = Some []
            \<longrightarrow> r = generateFallback t \<and> externalCalls e t = [])
       \<and> (\<not> isJStr (fst (generateViaOpenRouter e (articlePrompt t)))
            \<or> \<not> truthy (fst (generateViaOpenRouter e (articlePrompt t)))
            \<longrightarrow> r = generateFallback t)
       \<and> title (generateFallback t) = ''Fallback article on '' @ t
       \<and> content (generateFallback t) \<noteq> []"
proof -
  let ?llm = "fst (generateViaOpenRouter e (articlePrompt t))"
  have ft: "title (generateFallback t) = ''Fallback article on '' @ t"
    by (simp add: generateFallback_def)
  have fc: "content (generateFallback t) \<noteq> []"
    by (rule fallback_content_nonempty)
  have nokey: "generateArticle e t = Inr (generateFallback t) \<and> externalCalls e t = []"
    if "OPENROUTER_API_KEY e = None \<or> OPENROUTER_API_KEY e = Some []"
    using that
    by (auto simp: generateArticle_def generateArticleTry_def generateViaOpenRouter_def
          externalCalls_def)
  show ?thesis
  proof (cases "isJStr ?llm \<and> truthy ?llm")
    case True
    then obtain s where s: "?llm = JStr s" "s \<noteq> []"
      by (cases ?llm) (auto simp: isJStr_def)
    then have g: "generateArticle e t = Inr (parseGenerated t s)"
      by (intro generateArticle_text)
    have k: "\<not> (OPENROUTER_API_KEY e = None \<or> OPENROUTER_API_KEY e = Some [])"
      using s by (auto simp: generateViaOpenRouter_def split: option.splits if_splits)
    show ?thesis
      using g s k ft fc True
        parseGenerated_title_nonempty [of t s]
        parseGenerated_title_bound [of t s]
        parseGenerated_title_length [of t s]
        parseGenerated_content_nonempty [of s t]
      by auto
  next
    case False
    then have g: "generateArticle e t = Inr (generateFallback t)"
      by (cases ?llm)
         (auto simp: generateArticle_def generateArticleTry_def isJStr_def)
    have nostr: "\<not> (?llm = JStr s \<and> s \<noteq> [])" for s
      using False by (auto simp: isJStr_def)
    show ?thesis
      using g nokey ft fc nostr by (auto simp: generateFallback_def)
  qed
qed

theorem generateArticle_total_witness:
  "generateArticle noCredentialEnv ''DAOs'' = Inr (generateFallback ''DAOs'')
   \<and> title (generateFallback ''DAOs'') = ''Fallback article on DAOs''
   \<and> externalCalls noCredentialEnv ''DAOs'' = []
   \<and> generateArticle thirdAnswersEnv ''DAOs'' = Inr \<lparr>title = ''Hello'', content = ''World''\<rparr>"
proof -
  have g: "generateArticle thirdAnswersEnv ''DAOs'' = Inr \<lparr>title = ''Hello'', content = ''World''\<rparr>"
    by (simp add: generateArticle_def generateArticleTry_def generateViaOpenRouter_def
          thirdAnswersEnv_def verifyToken_def default_candidates alternativeFreeModels_def
          normalize_helloBody parseGenerated_hello [simplified])
  show ?thesis
    using generateArticle_total [of noCredentialEnv "''DAOs''"]
          generateArticle_total [of thirdAnswersEnv "''DAOs''"] g
    by (auto simp: noCredentialEnv_def)
qed

text \<open>
  C1 as it is written bounds every title by 140 characters. Without a credential and for a
  topic of 121 characters the fallback title has 141.
\<close>

theorem fallback_title_length_counterexample:
  "generateArticle noCredentialEnv (replicate 121 (CHR ''a''))
     = Inr (generateFallback (replicate 121 (CHR ''a'')))
   \<and> \<not> length (title (generateFallback (replicate 121 (CHR ''a'')))) \<le> 140"
  by (simp add: generateArticle_def generateArticleTry_def generateViaOpenRouter_def
        noCredentialEnv_def generateFallback_def)

section \<open>Properties of the store and of the HTTP API\<close>

subsection \<open>Seeding\<close>

lemma fold_insert_rows:
  "fault d = None \<Longrightarrow>
   map (\<lambda>a. (art_title a, art_content a))
       (rows (fold (\<lambda>a d'. snd (insertArticle (title a) (content a) d')) xs d))
     = map (\<lambda>a. (art_title a, art_content a)) (rows d) @ map (\<lambda>s. (title s, content s)) xs
   \<and> fault (fold (\<lambda>a d'. snd (insertArticle (title a) (content a) d')) xs d) = None"
proof (induction xs arbitrary: d)
  case Nil
  then show ?case by simp
next
  case (Cons x xs)
  let ?d = "snd (insertArticle (title x) (content x) d)"
  have f: "fault ?d = None"
    using Cons.prems by (simp add: insertArticle_def Let_def)
  have r: "map (\<lambda>a. (art_title a, art_content a)) (rows ?d)
             = map (\<lambda>a. (art_title a, art_content a)) (rows d) @ [(title x, content x)]"
    using Cons.prems by (simp add: insertArticle_def Let_def)
  show ?case using Cons.IH [OF f] r by simp
qed

lemma length_samples: "length samples = 3"
  by (simp add: samples_def)

lemma seedIfEmpty_empty:
  assumes "countAll d = Inr 0"
  shows "map (\<lambda>a. (art_title a, art_content a)) (rows (seedIfEmpty d))
           = map (\<lambda>s. (title s, content s)) samples"
    and "fault (seedIfEmpty d) = None"
proof -
  from assms have f: "fault d = None" and r: "rows d = []"
    by (auto simp: countAll_def split: option.splits)
  have s: "seedIfEmpty d = fold (\<lambda>a d'. snd (insertArticle (title a) (content a) d')) samples d"
    using assms by (simp add: seedIfEmpty_def)
  show "map (\<lambda>a. (art_title a, art_content a)) (rows (seedIfEmpty d))
           = map (\<lambda>s. (title s, content s)) samples"
    unfolding s using fold_insert_rows [OF f, of samples] r by simp
  show "fault (seedIfEmpty d) = None"
    unfolding s using fold_insert_rows [OF f, of samples] by simp
qed

lemma seedIfEmpty_other: "countAll d \<noteq> Inr 0 \<Longrightarrow> seedIfEmpty d = d"
  by (auto simp: seedIfEmpty_def split: sum.splits)

text \<open>
  C9. \<open>seedIfEmpty\<close> inserts the three samples, in order, when the count succeeds and is
  zero, and leaves the database as it is in every other case (a count that fails, a table
  that has a row). Running it a second time changes nothing, so the samples are never
  duplicated.
\<close>

theorem seedIfEmpty_once:
  "(countAll d = Inr 0 \<longrightarrow>
      map (\<lambda>a. (art_title a, art_content a)) (rows (seedIfEmpty d))
        = map (\<lambda>s. (title s, content s)) samples
      \<and> length (rows (seedIfEmpty d)) = 3)
   \<and> (countAll d \<noteq> Inr 0 \<longrightarrow> seedIfEmpty d = d)
   \<and> (rows d \<noteq> [] \<longrightarrow> seedIfEmpty d = d)
   \<and> seedIfEmpty (seedIfEmpty d) = seedIfEmpty d
   \<and> length samples = 3"
proof -
  have a: "map (\<lambda>a. (art_title a, art_content a)) (rows (seedIfEmpty d))
             = map (\<lambda>s. (title s, content s)) samples
           \<and> length (rows (seedIfEmpty d)) = 3" if z: "countAll d = Inr 0"
  proof -
    have m: "map (\<lambda>a. (art_title a, art_content a)) (rows (seedIfEmpty d))
               = map (\<lambda>s. (title s, content s)) samples"
      by (rule seedIfEmpty_empty(1) [OF z])
    have "length (rows (seedIfEmpty d)) = length samples"
      by (rule map_eq_imp_length_eq [OF m])
    then show ?thesis using m by (simp add: length_samples)
  qed
  have b: "seedIfEmpty d = d" if "countAll d \<noteq> Inr 0"
    using that by (rule seedIfEmpty_other)
  have c: "seedIfEmpty d = d" if "rows d \<noteq> []"
    using that by (intro seedIfEmpty_other) (auto simp: countAll_def split: option.splits)
  have i: "seedIfEmpty (seedIfEmpty d) = seedIfEmpty d"
  proof (cases "countAll d = Inr 0")
    case True
    from a [OF True] have "rows (seedIfEmpty d) \<noteq> []" by auto
    then have "countAll (seedIfEmpty d) \<noteq> Inr 0"
      by (auto simp: countAll_def split: option.splits)
    then show ?thesis by (rule seedIfEmpty_other)
  next
    case False
    then show ?thesis by (simp add: seedIfEmpty_other)
  qed
  show ?thesis using a b c i length_samples by blast
qed

theorem seedIfEmpty_once_witness:
  "length (rows (seedIfEmpty \<lparr>rows = [], lastID = 0, now = ''2026-01-01 00:00:00'', fault = None\<rparr>)) = 3
   \<and> seedIfEmpty (seedIfEmpty \<lparr>rows = [], lastID = 0, now = ''2026-01-01 00:00:00'', fault = None\<rparr>)
       = seedIfEmpty \<lparr>rows = [], lastID = 0, now = ''2026-01-01 00:00:00'', fault = None\<rparr>
   \<and> seedIfEmpty \<lparr>rows = [\<lparr>art_id = 1, art_title = ''T'', art_content = ''C'',
                              created_at = ''2026-01-01 00:00:00''\<rparr>],
                     lastID = 1, now = ''2026-01-02 00:00:00'', fault = None\<rparr>
       = \<lparr>rows = [\<lparr>art_id = 1, art_title = ''T'', art_content = ''C'',
                    created_at = ''2026-01-01 00:00:00''\<rparr>],
           lastID = 1, now = ''2026-01-02 00:00:00'', fault = None\<rparr>"
  using seedIfEmpty_once [of "\<lparr>rows = [], lastID = 0, now = ''2026-01-01 00:00:00'', fault = None\<rparr>"]
        seedIfEmpty_once [of "\<lparr>rows = [\<lparr>art_id = 1, art_title = ''T'', art_content = ''C'',
                                            created_at = ''2026-01-01 00:00:00''\<rparr>],
                                lastID = 1, now = ''2026-01-02 00:00:00'', fault = None\<rparr>"]
  by (simp add: countAll_def)

subsection \<open>The health probe\<close>

text \<open>
  C8. \<open>GET /health\<close> answers 200 with \<open>ok: true\<close>, \<open>db: "connected"\<close> and the timestamp
  exactly when the probe succeeds, and 503 with \<open>ok: false\<close>, \<open>db: "disconnected"\<close> and the
  message of the error exactly when the probe fails. In both cases the handler answers: no
  error of the probe leaves it.
\<close>

theorem health_probe:
  "(probe d = Inr () \<longrightarrow>
      health d ts = Inr \<lparr>status = 200,
                         body = JObj [(''ok'', JBool True), (''db'', JStr ''connected''),
                                      (''timestamp'', JStr ts)]\<rparr>)
   \<and> (\<forall>msg. probe d = Inl msg \<longrightarrow>
         health d ts = Inr \<lparr>status = 503,
                            body = JObj [(''ok'', JBool False), (''db'', JStr ''disconnected''),
                                         (''error'', JStr msg)]\<rparr>)
   \<and> (\<exists>r. health d ts = Inr r
          \<and> (status r = 200 \<longleftrightarrow> probe d = Inr ())
          \<and> (status r = 503 \<longleftrightarrow> probe d \<noteq> Inr ()))"
  by (cases "probe d") (auto simp: health_def)

theorem health_probe_witness:
  "health \<lparr>rows = [], lastID = 0, now = ''2026'', fault = None\<rparr> ''2026-01-01T00:00:00.000Z''
     = Inr \<lparr>status = 200,
            body = JObj [(''ok'', JBool True), (''db'', JStr ''connected''),
                         (''timestamp'', JStr ''2026-01-01T00:00:00.000Z'')]\<rparr>
   \<and> health \<lparr>rows = [], lastID = 0, now = ''2026'', fault = Some ''SQLITE_CANTOPEN''\<rparr> ''t''
     = Inr \<lparr>status = 503,
            body = JObj [(''ok'', JBool False), (''db'', JStr ''disconnected''),
                         (''error'', JStr ''SQLITE_CANTOPEN'')]\<rparr>"
  using health_probe [of "\<lparr>rows = [], lastID = 0, now = ''2026'', fault = None\<rparr>"
                         "''2026-01-01T00:00:00.000Z''"]
        health_probe [of "\<lparr>rows = [], lastID = 0, now = ''2026'', fault = Some ''SQLITE_CANTOPEN''\<rparr>"
                         "''t''"]
  by (simp add: probe_def)

subsection \<open>The topic of a generation request\<close>

lemma templateText_JStr: "templateText num (JStr s) = Inr s"
  by simp

lemma createArticle_text:
  "templateText num v = Inr t \<Longrightarrow> v \<noteq> JUndefined \<Longrightarrow>
   createArticleResult num e d v = createArticleResult num e d (JStr t)"
  by (simp add: createArticleResult_def createArticle_def generateArticleOf_def thenE_def)

text \<open>
  C10, as amended. When the body of \<open>POST /api/articles/generate\<close> has a falsy \<open>topic\<close> (the
  empty string, \<open>null\<close>, \<open>false\<close>, a missing field), the topic handed to \<open>createArticle\<close>
  is the default topic and the response is the one of a request without a topic field; the
  value handed over is always truthy and never the empty string. A truthy topic is handed
  over as it is, and the article is the one that \<open>createArticle\<close> makes for the text that
  a template literal makes of the value; when that text is not empty the response is the
  one of a request with that text as its topic.
\<close>

theorem generateRoute_falsy_topic:
  "(\<forall>v. getProp b ''topic'' = Inr v \<and> \<not> truthy v \<longrightarrow>
        routeTopic b = JStr defaultTopic
        \<and> generateRoute create b = generateRoute create (JObj []))
   \<and> routeTopic (JObj []) = JStr defaultTopic
   \<and> routeTopic JUndefined = JStr defaultTopic
   \<and> routeTopic b \<noteq> JStr []
   \<and> truthy (routeTopic b)
   \<and> (\<forall>v. getProp b ''topic'' = Inr v \<and> truthy v \<longrightarrow> routeTopic b = v)
   \<and> (\<forall>t. templateText num (routeTopic b) = Inr t \<longrightarrow>
          createArticleResult num e d (routeTopic b) = createArticleResult num e d (JStr t))
   \<and> (\<forall>t. templateText num (routeTopic b) = Inr t \<and> t \<noteq> [] \<longrightarrow>
          generateRoute (createArticleResult num e d) b
            = generateRoute (createArticleResult num e d) (JObj [(''topic'', JStr t)]))"
proof -
  have a: "routeTopic b = JStr defaultTopic" if "getProp b ''topic'' = Inr v" "\<not> truthy v" for v
    using that by (cases b) (simp_all add: routeTopic_def optTopic_def)
  have e: "routeTopic (JObj []) = JStr defaultTopic"
    by (simp add: routeTopic_def optTopic_def)
  have u: "routeTopic JUndefined = JStr defaultTopic"
    by (simp add: routeTopic_def optTopic_def)
  have t: "truthy (routeTopic b)"
    by (simp add: routeTopic_def Let_def defaultTopic_def)
  then have n: "routeTopic b \<noteq> JStr []"
    by auto
  have g: "generateRoute create b = generateRoute create (JObj [])"
    if "getProp b ''topic'' = Inr v" "\<not> truthy v" for v
    using a [OF that] e by (simp add: generateRoute_def)
  have k: "routeTopic b = v" if "getProp b ''topic'' = Inr v" "truthy v" for v
    using that by (cases b) (simp_all add: routeTopic_def optTopic_def)
  have nu: "routeTopic b \<noteq> JUndefined"
    using t by auto
  have c: "createArticleResult num e d (routeTopic b) = createArticleResult num e d (JStr t)"
    if tt: "templateText num (routeTopic b) = Inr t" for t
    by (rule createArticle_text [OF tt nu])
  have r: "generateRoute (createArticleResult num e d) b
             = generateRoute (createArticleResult num e d) (JObj [(''topic'', JStr t)])"
    if tt: "templateText num (routeTopic b) = Inr t" and ne: "t \<noteq> []" for t
  proof -
    have rt: "routeTopic (JObj [(''topic'', JStr t)]) = JStr t"
      using ne by (simp add: routeTopic_def optTopic_def)
    show ?thesis
      using c [OF tt] by (simp add: generateRoute_def rt)
  qed
  show ?thesis using a e u t n g k c r by blast
qed

theorem generateRoute_falsy_topic_witness:
  "routeTopic (JObj [(''topic'', JStr [])]) = JStr defaultTopic
   \<and> routeTopic (JObj [(''topic'', JNull)]) = JStr defaultTopic
   \<and> routeTopic (JObj [(''topic'', JBool False)]) = JStr defaultTopic
   \<and> generateRoute (\<lambda>t. Inl ''SQLITE_BUSY'') (JObj [(''topic'', JStr [])])
       = generateRoute (\<lambda>t. Inl ''SQLITE_BUSY'') (JObj [])
   \<and> routeTopic (JObj [(''topic'', JStr ''DAOs'')]) = JStr ''DAOs''
   \<and> generateRoute (createArticleResult noNumberText noCredentialEnv emptyDb)
         (JObj [(''topic'', JArr [JStr ''DAOs''])])
       = generateRoute (createArticleResult noNumberText noCredentialEnv emptyDb)
           (JObj [(''topic'', JStr ''DAOs'')])"
proof -
  have r: "routeTopic (JObj [(''topic'', JArr [JStr ''DAOs''])]) = JArr [JStr ''DAOs'']"
    by (simp add: routeTopic_def optTopic_def)
  have x: "templateText noNumberText (JArr [JStr ''DAOs'']) = Inr ''DAOs''"
    by (simp add: thenE_def)
  show ?thesis
    using generateRoute_falsy_topic [of "JObj [(''topic'', JStr [])]" "\<lambda>t. Inl ''SQLITE_BUSY''"]
          generateRoute_falsy_topic [of "JObj [(''topic'', JNull)]" "\<lambda>t. Inl ''SQLITE_BUSY''"]
          generateRoute_falsy_topic [of "JObj [(''topic'', JBool False)]" "\<lambda>t. Inl ''SQLITE_BUSY''"]
          generateRoute_falsy_topic [of "JObj [(''topic'', JStr ''DAOs'')]" "\<lambda>t. Inl ''SQLITE_BUSY''"]
          generateRoute_falsy_topic [of "JObj [(''topic'', JArr [JStr ''DAOs''])]" "\<lambda>t. Inl ''SQLITE_BUSY''"
             noNumberText noCredentialEnv emptyDb] r x
    by simp
qed

text \<open>
  C10 as it is written concludes that no article can be generated for the empty topic. The
  empty array is truthy, so the body \<open>{"topic": []}\<close> hands it to \<open>createArticle\<close>; a
  template literal makes the empty string of it, and without a credential the route
  answers 201 with the fallback article for the empty topic.
\<close>

theorem empty_array_topic_counterexample:
  "routeTopic (JObj [(''topic'', JArr [])]) = JArr []
   \<and> templateText noNumberText (JArr []) = Inr []
   \<and> generateRoute (createArticleResult noNumberText noCredentialEnv emptyDb)
         (JObj [(''topic'', JArr [])])
       = \<lparr>status = 201,
          body = JObj [(''id'', JNum 1),
                       (''title'', JStr ''Fallback article on ''),
                       (''content'', JStr (content (generateFallback []))),
                       (''created_at'', JStr ''2026-01-01 00:00:00'')]\<rparr>"
  by (simp add: routeTopic_def optTopic_def generateRoute_def createArticleResult_def
        createArticle_def generateArticleOf_def thenE_def generateArticle_def
        generateArticleTry_def generateViaOpenRouter_def noCredentialEnv_def emptyDb_def
        insertArticle_def fetchById_def articleJson_def generateFallback_def Let_def)

subsection \<open>Error responses\<close>

text \<open>
  C7, as amended. Every 500 response of the four routes under \<open>/api/articles\<close> is a JSON
  object with a string \<open>error\<close> and a string \<open>details\<close>. The 404 response of
  \<open>GET /api/articles/:id\<close> is the object \<open>{error: "Not found"}\<close>, and the 503 response of
  \<open>GET /health\<close> has a string \<open>error\<close>; neither has \<open>details\<close>. The routes answer with no
  other status than 200, 201, 404, 500 and 503.
\<close>

theorem error_responses:
  "(status (listRoute r1) = 500 \<longrightarrow> errorWithDetails (body (listRoute r1)))
   \<and> (status (getRoute r2) = 500 \<longrightarrow> errorWithDetails (body (getRoute r2)))
   \<and> (status (generateRoute create b) = 500 \<longrightarrow> errorWithDetails (body (generateRoute create b)))
   \<and> (status (diagnosticsRoute r4) = 500 \<longrightarrow> errorWithDetails (body (diagnosticsRoute r4)))
   \<and> (status (getRoute r2) = 404 \<longrightarrow> body (getRoute r2) = JObj [(''error'', JStr ''Not found'')])
   \<and> status (listRoute r1) \<in> {200, 500}
   \<and> status (getRoute r2) \<in> {200, 404, 500}
   \<and> status (generateRoute create b) \<in> {201, 500}
   \<and> status (diagnosticsRoute r4) \<in> {200, 500}
   \<and> (\<exists>r. health d ts = Inr r \<and> status r \<in> {200, 503}
          \<and> (status r = 503 \<longrightarrow>
                hasStringField (body r) ''error'' \<and> \<not> hasStringField (body r) ''details''))"
proof -
  have h: "\<exists>r. health d ts = Inr r \<and> status r \<in> {200, 503}
          \<and> (status r = 503 \<longrightarrow>
                hasStringField (body r) ''error'' \<and> \<not> hasStringField (body r) ''details'')"
    by (cases "probe d") (simp_all add: health_def hasStringField_def isJStr_def)
  have l: "status (listRoute r1) = 500 \<longrightarrow> errorWithDetails (body (listRoute r1))"
    by (cases r1) (simp_all add: listRoute_def errorWithDetails_def hasStringField_def isJStr_def)
  have g: "status (getRoute r2) = 500 \<longrightarrow> errorWithDetails (body (getRoute r2))"
    by (auto simp: getRoute_def errorWithDetails_def hasStringField_def isJStr_def
             split: sum.splits option.splits)
  have p: "status (generateRoute create b) = 500
           \<longrightarrow> errorWithDetails (body (generateRoute create b))"
    by (auto simp: generateRoute_def errorWithDetails_def hasStringField_def isJStr_def
             split: sum.splits)
  have dg: "status (diagnosticsRoute r4) = 500 \<longrightarrow> errorWithDetails (body (diagnosticsRoute r4))"
    by (cases r4) (simp_all add: diagnosticsRoute_def errorWithDetails_def hasStringField_def isJStr_def)
  have n: "status (getRoute r2) = 404 \<longrightarrow> body (getRoute r2) = JObj [(''error'', JStr ''Not found'')]"
    by (auto simp: getRoute_def split: sum.splits option.splits)
  have s1: "status (listRoute r1) \<in> {200, 500}"
    by (cases r1) (simp_all add: listRoute_def)
  have s2: "status (getRoute r2) \<in> {200, 404, 500}"
    by (auto simp: getRoute_def split: sum.splits option.splits)
  have s3: "status (generateRoute create b) \<in> {201, 500}"
    by (auto simp: generateRoute_def split: sum.splits)
  have s4: "status (diagnosticsRoute r4) \<in> {200, 500}"
    by (cases r4) (simp_all add: diagnosticsRoute_def)
  show ?thesis using l g p dg n s1 s2 s3 s4 h by blast
qed

theorem error_responses_witness:
  "errorWithDetails (body (listRoute (Inl ''SQLITE_BUSY'')))
   \<and> errorWithDetails (body (getRoute (Inl ''SQLITE_BUSY'')))
   \<and> errorWithDetails (body (generateRoute (\<lambda>t. Inl ''SQLITE_BUSY'') (JObj [])))
   \<and> errorWithDetails (body (diagnosticsRoute (Inl ''boom'')))
   \<and> body (getRoute (Inr None)) = JObj [(''error'', JStr ''Not found'')]"
  using error_responses [of "Inl ''SQLITE_BUSY''" "Inl ''SQLITE_BUSY''" "\<lambda>t. Inl ''SQLITE_BUSY''"
                            "JObj []" "Inl ''boom''"
                            "\<lparr>rows = [], lastID = 0, now = [], fault = Some ''SQLITE_BUSY''\<rparr>" "[]"]
        error_responses [of "Inl ''SQLITE_BUSY''" "Inr None" "\<lambda>t. Inl ''SQLITE_BUSY''"
                            "JObj []" "Inl ''boom''"
                            "\<lparr>rows = [], lastID = 0, now = [], fault = Some ''SQLITE_BUSY''\<rparr>" "[]"]
  by (simp add: listRoute_def getRoute_def generateRoute_def diagnosticsRoute_def)

text \<open>
  C7 as it is written asks for \<open>details\<close> in every error response. The 404 response for an
  absent id has none.
\<close>

theorem not_found_without_details_counterexample:
  "status (getRoute (Inr None)) = 404 \<and> \<not> errorWithDetails (body (getRoute (Inr None)))"
  by (simp add: getRoute_def errorWithDetails_def hasStringField_def)

end
